theory Spec2Isabelle
  imports Main
begin

section \<open>The application bootstrap module \<open>app/__init__.py\<close>\<close>

text \<open>
  The module builds the FastAPI application object, reads the process environment,
  decides the ORM configuration, optionally mounts the static front end together with
  an exception handler for HTTP errors, and registers the startup callback.
  Everything the Python code reads from its surroundings (the environment, the
  settings object, the application object, the two startup coroutines) is an explicit
  argument here, and everything it changes is returned.
\<close>

subsection \<open>Python values\<close>

text \<open>
  The configuration returned by \<open>build_orm_config\<close> and the bodies of JSON responses
  are Python dictionaries, lists, strings, booleans and \<open>None\<close>. A dictionary literal
  is an association list in the order the literal is written; all keys in this module
  are strings.
\<close>

datatype pyval =
    PNone
  | PStr string
  | PBool bool
  | PList "pyval list"
  | PDict "(string \<times> pyval) list"

text \<open>\<open>d[k]\<close> on a value: \<open>None\<close> where Python would raise (no such key, or not a dictionary).\<close>

fun dict_get :: "pyval \<Rightarrow> string \<Rightarrow> pyval option" where
  "dict_get (PDict kvs) k = map_of kvs k"
| "dict_get PNone k = None"
| "dict_get (PStr s) k = None"
| "dict_get (PBool b) k = None"
| "dict_get (PList vs) k = None"

text \<open>\<open>d[k1][k2]...[kn]\<close>.\<close>

fun dict_path :: "pyval \<Rightarrow> string list \<Rightarrow> pyval option" where
  "dict_path v [] = Some v"
| "dict_path v (k # ks) =
     (case dict_get v k of None \<Rightarrow> None | Some w \<Rightarrow> dict_path w ks)"

subsection \<open>Environment, settings, logging\<close>

text \<open>
  The process environment is a partial map from variable names to strings;
  \<open>os.getenv(name)\<close> returns the string, or \<open>None\<close> for an unset variable.
\<close>

type_synonym environ = "string \<rightharpoonup> string"

definition getenv :: "environ \<Rightarrow> string \<Rightarrow> pyval" where
  "getenv env name = (case env name of None \<Rightarrow> PNone | Some v \<Rightarrow> PStr v)"

text \<open>
  The settings object comes from \<open>app.settings.config\<close>. This module reads
  \<open>BASE_DIR\<close> (used through its string form in an f-string) and writes \<open>TORTOISE_ORM\<close>.
\<close>

record settings =
  BASE_DIR :: string
  TORTOISE_ORM :: "pyval option"

text \<open>
  The module logs through the \<open>uvicorn\<close> logger. The message texts are Chinese string
  literals; each is named here by the place that emits it.
\<close>

datatype log_level = INFO | WARNING

datatype log_message =
    Msg_static_served_by_fastapi
  | Msg_static_not_served
  | Msg_using_mysql
  | Msg_using_sqlite
  | Msg_no_database_type_default_sqlite

type_synonym log_record = "log_level \<times> log_message"

subsection \<open>\<open>build_orm_config\<close>\<close>

text \<open>
  The argument is what \<open>os.getenv("DATABASE_TYPE")\<close> returned: a string or \<open>None\<close>.
  In the first two branches \<open>db_type\<close> keeps the value the comparison has just fixed;
  the last branch assigns \<open>"sqlite"\<close> to it. The function has no \<open>raise\<close> and calls
  nothing that fails, so the result is a plain value: the log records emitted and the
  dictionary returned.
\<close>

definition build_orm_config ::
  "settings \<Rightarrow> environ \<Rightarrow> string option \<Rightarrow> log_record list \<times> pyval" where
  "build_orm_config st env db_type_arg =
     (let (db_type, logs, credentials) =
        (if db_type_arg = Some ''mysql'' then
           (''mysql'',
            [(INFO, Msg_using_mysql)],
            PDict [(''host'', getenv env ''MYXQL_HOST''),
                   (''port'', getenv env ''MYXQL_PORT''),
                   (''user'', getenv env ''MYXQL_USER''),
                   (''password'', getenv env ''MYXQL_PASSWORD''),
                   (''database'', getenv env ''MYXQL_DATABASE'')])
         else if db_type_arg = Some ''sqlite'' then
           (''sqlite'',
            [(INFO, Msg_using_sqlite)],
            PDict [(''file_path'', PStr (BASE_DIR st @ ''/db.sqlite3''))])
         else
           (''sqlite'',
            [(INFO, Msg_no_database_type_default_sqlite)],
            PDict [(''file_path'', PStr (BASE_DIR st @ ''/db.sqlite3''))]))
      in (logs,
          PDict [(''connections'',
                    PDict [(db_type,
                            PDict [(''engine'', PStr (''tortoise.backends.'' @ db_type)),
                                   (''credentials'', credentials)])]),
                 (''apps'',
                    PDict [(''models'',
                            PDict [(''models'', PList [PStr ''app.models'']),
                                   (''default_connection'', PStr db_type)])]),
                 (''use_tz'', PBool False),
                 (''timezone'', PStr ''Asia/Shanghai'')]))"

subsection \<open>The application object and \<open>load_static\<close>\<close>

text \<open>
  A request is seen by this module through \<open>request.url.path\<close> only; an HTTP exception
  through its \<open>status_code\<close> and \<open>detail\<close>.
\<close>

record request =
  url_path :: string

record http_exception =
  status_code :: int
  detail :: pyval

text \<open>
  The module itself builds redirects and JSON responses. The two other forms are what
  the framework's own handlers for HTTP exceptions build: a response with a status and
  no body, and a plain-text response.
\<close>

datatype response =
    RedirectResponse string
  | JSONResponse int pyval
  | Response int
  | PlainTextResponse int pyval

text \<open>\<open>s.startswith(p)\<close>.\<close>

definition startswith :: "string \<Rightarrow> string \<Rightarrow> bool" where
  "startswith s p = (take (length p) s = p)"

definition HTTP_404_NOT_FOUND :: int where
  "HTTP_404_NOT_FOUND = 404"

text \<open>The handler that \<open>load_static\<close> defines (its Python name is \<open>_\<close>).\<close>

definition load_static_handler :: "request \<Rightarrow> http_exception \<Rightarrow> response" where
  "load_static_handler req exc =
     (if status_code exc = HTTP_404_NOT_FOUND then
        (let path = url_path req in
         if \<not> startswith path ''/api'' then RedirectResponse ''/''
         else JSONResponse HTTP_404_NOT_FOUND (PDict [(''detail'', PStr ''Not Found'')]))
      else JSONResponse (status_code exc) (PDict [(''detail'', detail exc)]))"

text \<open>
  Of the application object the module uses \<open>mount\<close> and \<open>exception_handler\<close>: the
  first appends a mount to the routes, the second stores a handler in the dictionary
  \<open>exception_handlers\<close> of the application, whose keys are integer status codes and
  exception classes (a class is named by its qualified name).
\<close>

record mount =
  mount_path :: string
  directory :: string
  html :: bool
  mount_name :: string

datatype handler_key = Status_code int | Exception_class string

type_synonym handler = "request \<Rightarrow> http_exception \<Rightarrow> response"

record fastapi =
  routes :: "mount list"
  exception_handlers :: "handler_key \<rightharpoonup> handler"

text \<open>
  The name \<open>HTTPException\<close> is imported twice by the module; the later import, from
  \<open>starlette.exceptions\<close>, is the one in force.
\<close>

definition HTTPException :: string where
  "HTTPException = ''starlette.exceptions.HTTPException''"

text \<open>
  \<open>StaticFiles(directory="web/dist", html=True)\<close> checks in its constructor that the
  directory exists (\<open>os.path.isdir\<close>) and raises \<open>RuntimeError\<close> when it does not. The
  file system is the set of paths that are directories, as the process sees them.
\<close>

type_synonym filesystem = "string set"

datatype error = RuntimeError string

definition isdir :: "filesystem \<Rightarrow> string \<Rightarrow> bool" where
  "isdir fs d = (d \<in> fs)"

text \<open>
  The constructor runs before \<open>app.mount\<close> is called, so on a missing directory
  neither the mount nor the handler is installed. The message is
  \<open>Directory 'web/dist' does not exist\<close>, the quotes being character \<open>0x27\<close>.
\<close>

definition load_static :: "filesystem \<Rightarrow> fastapi \<Rightarrow> error + fastapi" where
  "load_static fs app =
     (if \<not> isdir fs ''web/dist'' then
        Inl (RuntimeError (''Directory '' @ [CHR 0x27] @ ''web/dist'' @ [CHR 0x27]
                           @ '' does not exist''))
      else
        Inr (app\<lparr>routes := routes app @
                    [\<lparr>mount_path = ''/'', directory = ''web/dist'', html = True,
                      mount_name = ''dist''\<rparr>],
                 exception_handlers :=
                    (exception_handlers app)(Exception_class HTTPException \<mapsto>
                       load_static_handler)\<rparr>))"

subsection \<open>\<open>load_dotenv_file\<close>\<close>

text \<open>
  The result is the log records emitted, and either the error raised or the
  application and the settings as the function leaves them. When \<open>load_static\<close>
  raises, the INFO record is already logged, the application is untouched and
  \<open>settings.TORTOISE_ORM\<close> is never written.
\<close>

definition load_dotenv_file ::
  "filesystem \<Rightarrow> environ \<Rightarrow> settings \<Rightarrow> fastapi
     \<Rightarrow> log_record list \<times> (error + fastapi \<times> settings)" where
  "load_dotenv_file fs env st app =
     (let (logs1, r) =
        (if env ''LOAD_STATIC_FROM_LOCAL'' = Some ''true''
         then ([(INFO, Msg_static_served_by_fastapi)], load_static fs app)
         else ([(WARNING, Msg_static_not_served)], Inr app))
      in case r of
           Inl e \<Rightarrow> (logs1, Inl e)
         | Inr app1 \<Rightarrow>
             (let db_type = env ''DATABASE_TYPE'';
                  (logs2, cfg) = build_orm_config st env db_type
              in (logs1 @ logs2, Inr (app1, st\<lparr>TORTOISE_ORM := Some cfg\<rparr>))))"

subsection \<open>How the framework answers an HTTP exception\<close>

text \<open>
  FastAPI's default handler for HTTP exceptions (\<open>fastapi.exception_handlers\<close>), which
  a newly constructed application holds under the class \<open>HTTPException\<close>.
\<close>

definition is_body_allowed_for_status_code :: "int \<Rightarrow> bool" where
  "is_body_allowed_for_status_code current_status_code =
     (\<not> (current_status_code < 200 \<or> current_status_code \<in> {204, 205, 304}))"

definition http_exception_handler :: handler where
  "http_exception_handler req exc =
     (if \<not> is_body_allowed_for_status_code (status_code exc) then Response (status_code exc)
      else JSONResponse (status_code exc) (PDict [(''detail'', detail exc)]))"

text \<open>
  Starlette's exception middleware starts from its own handler for \<open>HTTPException\<close>
  (\<open>ExceptionMiddleware.http_exception\<close>) and then adds the application's handlers.
\<close>

definition ExceptionMiddleware_http_exception :: handler where
  "ExceptionMiddleware_http_exception req exc =
     (if status_code exc \<in> {204, 304} then Response (status_code exc)
      else PlainTextResponse (status_code exc) (detail exc))"

text \<open>
  The lookup by class walks the method resolution order of the exception's class,
  given as the list of class names, and takes the first class that has a handler.
\<close>

fun lookup_exception_handler :: "(handler_key \<rightharpoonup> handler) \<Rightarrow> string list \<Rightarrow> handler option" where
  "lookup_exception_handler exc_handlers [] = None"
| "lookup_exception_handler exc_handlers (cls # mro) =
     (case exc_handlers (Exception_class cls) of
        Some h \<Rightarrow> Some h
      | None \<Rightarrow> lookup_exception_handler exc_handlers mro)"

text \<open>
  The response to an exception raised while serving a request. The application's
  handlers for the keys \<open>500\<close> and \<open>Exception\<close> go to the server-error middleware and
  take no part. For an instance of \<open>HTTPException\<close> a handler registered for the status
  code is tried first; otherwise the lookup by class decides. \<open>None\<close> when no handler
  is found and the exception is raised on.
\<close>

definition handle_http_exception ::
  "fastapi \<Rightarrow> string list \<Rightarrow> request \<Rightarrow> http_exception \<Rightarrow> response option" where
  "handle_http_exception app mro req exc =
     (let handlers = (\<lambda>key. if key = Status_code 500 \<or> key = Exception_class ''Exception''
                             then None else exception_handlers app key);
          class_handlers = (\<lambda>key. case handlers key of
                                     Some h \<Rightarrow> Some h
                                   | None \<Rightarrow> if key = Exception_class HTTPException
                                             then Some ExceptionMiddleware_http_exception
                                             else None);
          status_handler = (if HTTPException \<in> set mro
                            then handlers (Status_code (status_code exc)) else None);
          found = (case status_handler of
                     Some h \<Rightarrow> Some h
                   | None \<Rightarrow> lookup_exception_handler class_handlers mro)
      in case found of None \<Rightarrow> None | Some h \<Rightarrow> Some (h req exc))"

subsection \<open>\<open>startup_event\<close>\<close>

text \<open>
  The startup callback awaits \<open>init_superuser()\<close> and then \<open>init_menus()\<close>. Both are
  coroutines of \<open>app.core.init_app\<close>; here each is a step on the state of the outside
  world (the database) that either raises (\<open>Inl\<close>) or returns the new state. The
  callback's result carries the list of coroutines it has called, in call order.
\<close>

datatype startup_task = Init_superuser | Init_menus

definition startup_event ::
  "('s \<Rightarrow> 'e + 's) \<Rightarrow> ('s \<Rightarrow> 'e + 's) \<Rightarrow> 's \<Rightarrow> startup_task list \<times> ('e + 's)" where
  "startup_event init_superuser init_menus s =
     (case init_superuser s of
        Inl e \<Rightarrow> ([Init_superuser], Inl e)
      | Inr s1 \<Rightarrow>
          (case init_menus s1 of
             Inl e \<Rightarrow> ([Init_superuser, Init_menus], Inl e)
           | Inr s2 \<Rightarrow> ([Init_superuser, Init_menus], Inr s2)))"

section \<open>Properties of \<open>build_orm_config\<close>\<close>

text \<open>
  Claim C1. For every database-type token that is neither \<open>"mysql"\<close> nor \<open>"sqlite"\<close>,
  the unset variable included, the builder returns the sqlite configuration: a single
  connection \<open>sqlite\<close> with engine \<open>tortoise.backends.sqlite\<close> whose credentials are
  exactly the one field \<open>file_path\<close> with value \<open>BASE_DIR/db.sqlite3\<close>; it is the very
  dictionary returned for the token \<open>"sqlite"\<close>. The builder is a total function with
  no error result, so a dictionary is returned for every token.
\<close>

theorem build_orm_config_fallback:
  assumes "db_type \<noteq> Some ''mysql''" and "db_type \<noteq> Some ''sqlite''"
  shows "dict_get (snd (build_orm_config st env db_type)) ''connections'' =
           Some (PDict [(''sqlite'',
                   PDict [(''engine'', PStr ''tortoise.backends.sqlite''),
                          (''credentials'',
                             PDict [(''file_path'', PStr (BASE_DIR st @ ''/db.sqlite3''))])])])
         \<and> snd (build_orm_config st env db_type) =
             snd (build_orm_config st env (Some ''sqlite''))"
  using assms by (simp add: build_orm_config_def)

theorem build_orm_config_fallback_witness:
  "dict_get (snd (build_orm_config \<lparr>BASE_DIR = ''/srv/app'', TORTOISE_ORM = None\<rparr>
                    Map.empty (Some ''postgres''))) ''connections''
     = Some (PDict [(''sqlite'',
               PDict [(''engine'', PStr ''tortoise.backends.sqlite''),
                      (''credentials'', PDict [(''file_path'', PStr ''/srv/app/db.sqlite3'')])])])
   \<and> dict_get (snd (build_orm_config \<lparr>BASE_DIR = ''/srv/app'', TORTOISE_ORM = None\<rparr>
                    Map.empty None)) ''connections''
     = Some (PDict [(''sqlite'',
               PDict [(''engine'', PStr ''tortoise.backends.sqlite''),
                      (''credentials'', PDict [(''file_path'', PStr ''/srv/app/db.sqlite3'')])])])"
proof -
  have a: "Some ''postgres'' \<noteq> Some ''mysql''" and b: "Some ''postgres'' \<noteq> Some ''sqlite''"
    by simp_all
  have c: "(None :: string option) \<noteq> Some ''mysql''"
    and d: "(None :: string option) \<noteq> Some ''sqlite''"
    by simp_all
  show ?thesis
    using build_orm_config_fallback
            [OF a b, THEN conjunct1, of "\<lparr>BASE_DIR = ''/srv/app'', TORTOISE_ORM = None\<rparr>" Map.empty]
          build_orm_config_fallback
            [OF c d, THEN conjunct1, of "\<lparr>BASE_DIR = ''/srv/app'', TORTOISE_ORM = None\<rparr>" Map.empty]
    by simp
qed

text \<open>
  Claim C5. For the token \<open>"mysql"\<close> the configuration has the single connection
  \<open>mysql\<close> with engine \<open>tortoise.backends.mysql\<close>, and its credentials are exactly the
  five fields \<open>host\<close>, \<open>port\<close>, \<open>user\<close>, \<open>password\<close>, \<open>database\<close>, in this order,
  holding what the environment gives for \<open>MYXQL_HOST\<close>, \<open>MYXQL_PORT\<close>, \<open>MYXQL_USER\<close>,
  \<open>MYXQL_PASSWORD\<close>, \<open>MYXQL_DATABASE\<close>: the string itself when the variable is set,
  \<open>None\<close> when it is not.
\<close>

theorem build_orm_config_mysql:
  "dict_get (snd (build_orm_config st env (Some ''mysql''))) ''connections'' =
     Some (PDict [(''mysql'',
             PDict [(''engine'', PStr ''tortoise.backends.mysql''),
                    (''credentials'',
                       PDict (zip [''host'', ''port'', ''user'', ''password'', ''database'']
                                (map (\<lambda>name. case env name of None \<Rightarrow> PNone | Some v \<Rightarrow> PStr v)
                                   [''MYXQL_HOST'', ''MYXQL_PORT'', ''MYXQL_USER'',
                                    ''MYXQL_PASSWORD'', ''MYXQL_DATABASE''])))])])"
  by (simp add: build_orm_config_def getenv_def)

theorem build_orm_config_mysql_witness:
  "dict_get (snd (build_orm_config \<lparr>BASE_DIR = ''/srv/app'', TORTOISE_ORM = None\<rparr>
                    [''MYXQL_HOST'' \<mapsto> ''db.local'', ''MYXQL_PORT'' \<mapsto> ''3306'']
                    (Some ''mysql''))) ''connections'' =
     Some (PDict [(''mysql'',
             PDict [(''engine'', PStr ''tortoise.backends.mysql''),
                    (''credentials'',
                       PDict [(''host'', PStr ''db.local''),
                              (''port'', PStr ''3306''),
                              (''user'', PNone),
                              (''password'', PNone),
                              (''database'', PNone)])])])"
  using build_orm_config_mysql
          [of "\<lparr>BASE_DIR = ''/srv/app'', TORTOISE_ORM = None\<rparr>"
              "[''MYXQL_HOST'' \<mapsto> ''db.local'', ''MYXQL_PORT'' \<mapsto> ''3306'']"]
  by simp

text \<open>
  Claim C6. For every token and environment the configuration declares exactly one
  connection; its key is the resolved backend kind (\<open>mysql\<close> or \<open>sqlite\<close>), the engine
  is named after it, and the default connection of the \<open>models\<close> app is that same key.
\<close>

theorem build_orm_config_default_connection:
  "\<exists>kind conn.
      dict_get (snd (build_orm_config st env db_type)) ''connections'' = Some (PDict [(kind, conn)])
    \<and> dict_path (snd (build_orm_config st env db_type)) [''apps'', ''models'', ''default_connection'']
        = Some (PStr kind)
    \<and> dict_get conn ''engine'' = Some (PStr (''tortoise.backends.'' @ kind))
    \<and> kind = (if db_type = Some ''mysql'' then ''mysql'' else ''sqlite'')"
  by (simp add: build_orm_config_def)

theorem build_orm_config_default_connection_witness:
  "\<exists>kind conn.
      dict_get (snd (build_orm_config \<lparr>BASE_DIR = ''/srv/app'', TORTOISE_ORM = None\<rparr>
                       Map.empty (Some ''MySQL''))) ''connections'' = Some (PDict [(kind, conn)])
    \<and> dict_path (snd (build_orm_config \<lparr>BASE_DIR = ''/srv/app'', TORTOISE_ORM = None\<rparr>
                        Map.empty (Some ''MySQL''))) [''apps'', ''models'', ''default_connection'']
        = Some (PStr kind)
    \<and> kind = ''sqlite''"
  using build_orm_config_default_connection
          [of "\<lparr>BASE_DIR = ''/srv/app'', TORTOISE_ORM = None\<rparr>" Map.empty "Some ''MySQL''"]
  by auto

text \<open>
  Claim C9. For every token, environment and settings the model sources of the
  configuration are the list \<open>["app.models"]\<close>, \<open>use_tz\<close> is \<open>False\<close> and \<open>timezone\<close> is
  \<open>"Asia/Shanghai"\<close>.
\<close>

theorem build_orm_config_constants:
  "dict_path (snd (build_orm_config st env db_type)) [''apps'', ''models'', ''models'']
     = Some (PList [PStr ''app.models''])
   \<and> dict_get (snd (build_orm_config st env db_type)) ''use_tz'' = Some (PBool False)
   \<and> dict_get (snd (build_orm_config st env db_type)) ''timezone'' = Some (PStr ''Asia/Shanghai'')"
  by (simp add: build_orm_config_def)

theorem build_orm_config_constants_witness:
  "dict_path (snd (build_orm_config \<lparr>BASE_DIR = ''/srv/app'', TORTOISE_ORM = None\<rparr>
                     [''MYXQL_HOST'' \<mapsto> ''db.local''] (Some ''mysql'')))
             [''apps'', ''models'', ''models'']
     = Some (PList [PStr ''app.models''])
   \<and> dict_get (snd (build_orm_config \<lparr>BASE_DIR = ''/srv/app'', TORTOISE_ORM = None\<rparr>
                      [''MYXQL_HOST'' \<mapsto> ''db.local''] (Some ''mysql''))) ''use_tz''
       = Some (PBool False)
   \<and> dict_get (snd (build_orm_config \<lparr>BASE_DIR = ''/srv/app'', TORTOISE_ORM = None\<rparr>
                      [''MYXQL_HOST'' \<mapsto> ''db.local''] (Some ''mysql''))) ''timezone''
       = Some (PStr ''Asia/Shanghai'')"
  by (rule build_orm_config_constants)

section \<open>Properties of the exception handler\<close>

lemma startswith_api: "startswith s ''/api'' = (take 4 s = ''/api'')"
  by (simp add: startswith_def eval_nat_numeral)

lemma startswith_append: "startswith (p @ rest) p"
  by (simp add: startswith_def)

text \<open>
  Claim C2. For an HTTP error with status 404: when the request path does not start
  with \<open>/api\<close> the handler answers with a redirect to \<open>/\<close>; when it does, the handler
  answers with status 404 and body \<open>{"detail": "Not Found"}\<close>.
\<close>

theorem load_static_handler_404:
  assumes "status_code exc = 404"
  shows "(\<not> startswith (url_path req) ''/api'' \<longrightarrow>
            load_static_handler req exc = RedirectResponse ''/'')
       \<and> (startswith (url_path req) ''/api'' \<longrightarrow>
            load_static_handler req exc =
              JSONResponse 404 (PDict [(''detail'', PStr ''Not Found'')]))"
  using assms by (simp add: load_static_handler_def HTTP_404_NOT_FOUND_def)

theorem load_static_handler_404_witness:
  "load_static_handler \<lparr>url_path = ''/dashboard/settings''\<rparr>
       \<lparr>status_code = 404, detail = PStr ''Not Found''\<rparr> = RedirectResponse ''/''
   \<and> load_static_handler \<lparr>url_path = ''/api/unknown''\<rparr>
       \<lparr>status_code = 404, detail = PStr ''Not Found''\<rparr>
       = JSONResponse 404 (PDict [(''detail'', PStr ''Not Found'')])"
proof -
  have s: "status_code \<lparr>status_code = 404, detail = PStr ''Not Found''\<rparr> = 404"
    by simp
  have a: "\<not> startswith (url_path \<lparr>url_path = ''/dashboard/settings''\<rparr>) ''/api''"
    by (simp add: startswith_def)
  have b: "startswith (url_path \<lparr>url_path = ''/api/unknown''\<rparr>) ''/api''"
    by (simp add: startswith_def)
  show ?thesis
    using load_static_handler_404 [OF s, of "\<lparr>url_path = ''/dashboard/settings''\<rparr>"]
          load_static_handler_404 [OF s, of "\<lparr>url_path = ''/api/unknown''\<rparr>"] a b
    by blast
qed

text \<open>
  Claim C7. For an HTTP error whose status is not 404, on any path, the handler
  answers with the status of the error and the body \<open>{"detail": d}\<close> where \<open>d\<close> is the
  detail of the error, unchanged.
\<close>

theorem load_static_handler_other_status:
  assumes "status_code exc \<noteq> 404"
  shows "load_static_handler req exc =
           JSONResponse (status_code exc) (PDict [(''detail'', detail exc)])"
  using assms by (simp add: load_static_handler_def HTTP_404_NOT_FOUND_def)

theorem load_static_handler_other_status_witness:
  "load_static_handler \<lparr>url_path = ''/dashboard''\<rparr>
       \<lparr>status_code = 422, detail = PStr ''Unprocessable Entity''\<rparr>
     = JSONResponse 422 (PDict [(''detail'', PStr ''Unprocessable Entity'')])"
proof -
  have s: "status_code \<lparr>status_code = 422, detail = PStr ''Unprocessable Entity''\<rparr> \<noteq> 404"
    by simp
  show ?thesis
    using load_static_handler_other_status [OF s, of "\<lparr>url_path = ''/dashboard''\<rparr>"]
    by simp
qed

text \<open>
  Claim C10. The test for the API prefix is a test on characters: a 404 on any path
  that is the four characters \<open>/api\<close> followed by anything, also by something other
  than \<open>/\<close> as in \<open>/apifoo\<close>, gets the JSON 404 answer and never the redirect; a 404 on
  a path whose first four characters are not \<open>/api\<close> is redirected to \<open>/\<close>.
\<close>

theorem load_static_handler_prefix_is_literal:
  assumes "status_code exc = 404"
  shows "(\<forall>rest. load_static_handler \<lparr>url_path = ''/api'' @ rest\<rparr> exc =
                   JSONResponse 404 (PDict [(''detail'', PStr ''Not Found'')]))
       \<and> (take 4 (url_path req) \<noteq> ''/api'' \<longrightarrow>
            load_static_handler req exc = RedirectResponse ''/'')"
  using assms
  by (simp add: load_static_handler_def HTTP_404_NOT_FOUND_def startswith_api startswith_append)

theorem load_static_handler_prefix_is_literal_witness:
  "load_static_handler \<lparr>url_path = ''/apifoo''\<rparr> \<lparr>status_code = 404, detail = PStr ''Not Found''\<rparr>
     = JSONResponse 404 (PDict [(''detail'', PStr ''Not Found'')])
   \<and> load_static_handler \<lparr>url_path = ''/ap''\<rparr> \<lparr>status_code = 404, detail = PStr ''Not Found''\<rparr>
     = RedirectResponse ''/''"
proof -
  have s: "status_code \<lparr>status_code = 404, detail = PStr ''Not Found''\<rparr> = 404"
    by simp
  have a: "take 4 (url_path \<lparr>url_path = ''/ap''\<rparr>) \<noteq> ''/api''"
    by simp
  have b: "''/apifoo'' = ''/api'' @ ''foo''"
    by simp
  show ?thesis
    using load_static_handler_prefix_is_literal [OF s, of "\<lparr>url_path = ''/ap''\<rparr>"] a b
    by metis
qed

section \<open>Properties of \<open>load_dotenv_file\<close>\<close>

lemma logs_build_orm_config:
  "fst (build_orm_config st env db_type) =
     [(INFO, if db_type = Some ''mysql'' then Msg_using_mysql
             else if db_type = Some ''sqlite'' then Msg_using_sqlite
             else Msg_no_database_type_default_sqlite)]"
  by (simp add: build_orm_config_def)

lemma load_static_routes:
  "load_static fs app = Inr app1 \<Longrightarrow> length (routes app1) = Suc (length (routes app))"
  by (auto simp: load_static_def split: if_splits)

lemma load_static_not_same: "load_static fs app \<noteq> Inr app"
  using load_static_routes [of fs app app] by auto

lemma result_load_dotenv_file:
  "snd (load_dotenv_file fs env st app) =
     (if env ''LOAD_STATIC_FROM_LOCAL'' = Some ''true'' then
        (case load_static fs app of
           Inl e \<Rightarrow> Inl e
         | Inr app1 \<Rightarrow>
             Inr (app1, st\<lparr>TORTOISE_ORM :=
                    Some (snd (build_orm_config st env (env ''DATABASE_TYPE'')))\<rparr>))
      else Inr (app, st\<lparr>TORTOISE_ORM :=
                  Some (snd (build_orm_config st env (env ''DATABASE_TYPE'')))\<rparr>))"
  by (simp add: load_dotenv_file_def Let_def case_prod_beta split: sum.splits)

lemma logs_load_dotenv_file:
  "fst (load_dotenv_file fs env st app) =
     (if env ''LOAD_STATIC_FROM_LOCAL'' = Some ''true'' then
        (INFO, Msg_static_served_by_fastapi) #
          (case load_static fs app of
             Inl e \<Rightarrow> []
           | Inr app1 \<Rightarrow> fst (build_orm_config st env (env ''DATABASE_TYPE'')))
      else (WARNING, Msg_static_not_served) #
             fst (build_orm_config st env (env ''DATABASE_TYPE'')))"
  by (simp add: load_dotenv_file_def Let_def case_prod_beta split: sum.splits)

lemma handle_http_exception_default:
  assumes "exception_handlers app (Status_code (status_code exc)) = None"
    and "exception_handlers app (Exception_class HTTPException) = Some h"
  shows "handle_http_exception app (HTTPException # bases) req exc = Some (h req exc)"
  using assms by (simp add: handle_http_exception_def HTTPException_def)

text \<open>
  Claim C8. Static serving is switched on exactly when the environment variable
  \<open>LOAD_STATIC_FROM_LOCAL\<close> is the string \<open>"true"\<close>. Then, and only then, the module
  logs at level INFO that FastAPI serves the static pages and runs \<open>load_static\<close>:
  where the directory \<open>web/dist\<close> exists the static mount and the handler are
  installed, where it does not the function raises the \<open>RuntimeError\<close> of the
  static-file server right after that log record. For every other value, the unset
  variable and \<open>"True"\<close> included, and only for those, the function returns with the
  application exactly as it was.
\<close>

theorem load_dotenv_file_static_iff:
  "(((INFO, Msg_static_served_by_fastapi) \<in> set (fst (load_dotenv_file fs env st app)))
      = (env ''LOAD_STATIC_FROM_LOCAL'' = Some ''true''))
   \<and> ((snd (load_dotenv_file fs env st app) =
         Inr (app, st\<lparr>TORTOISE_ORM :=
                Some (snd (build_orm_config st env (env ''DATABASE_TYPE'')))\<rparr>))
      = (env ''LOAD_STATIC_FROM_LOCAL'' \<noteq> Some ''true''))
   \<and> (env ''LOAD_STATIC_FROM_LOCAL'' = Some ''true'' \<and> isdir fs ''web/dist'' \<longrightarrow>
        snd (load_dotenv_file fs env st app) =
          Inr (app\<lparr>routes := routes app @
                      [\<lparr>mount_path = ''/'', directory = ''web/dist'', html = True,
                        mount_name = ''dist''\<rparr>],
                   exception_handlers :=
                      (exception_handlers app)(Exception_class HTTPException \<mapsto>
                         load_static_handler)\<rparr>,
               st\<lparr>TORTOISE_ORM :=
                    Some (snd (build_orm_config st env (env ''DATABASE_TYPE'')))\<rparr>))
   \<and> (env ''LOAD_STATIC_FROM_LOCAL'' = Some ''true'' \<and> \<not> isdir fs ''web/dist'' \<longrightarrow>
        load_dotenv_file fs env st app =
          ([(INFO, Msg_static_served_by_fastapi)],
           Inl (RuntimeError (''Directory '' @ [CHR 0x27] @ ''web/dist'' @ [CHR 0x27]
                              @ '' does not exist''))))"
proof (intro conjI)
  show "((INFO, Msg_static_served_by_fastapi) \<in> set (fst (load_dotenv_file fs env st app)))
          = (env ''LOAD_STATIC_FROM_LOCAL'' = Some ''true'')"
    by (simp add: logs_load_dotenv_file logs_build_orm_config split: sum.splits)
  show "(snd (load_dotenv_file fs env st app) =
           Inr (app, st\<lparr>TORTOISE_ORM :=
                  Some (snd (build_orm_config st env (env ''DATABASE_TYPE'')))\<rparr>))
          = (env ''LOAD_STATIC_FROM_LOCAL'' \<noteq> Some ''true'')"
    using load_static_not_same [of fs app]
    by (auto simp: result_load_dotenv_file split: sum.splits)
  show "env ''LOAD_STATIC_FROM_LOCAL'' = Some ''true'' \<and> isdir fs ''web/dist'' \<longrightarrow>
        snd (load_dotenv_file fs env st app) =
          Inr (app\<lparr>routes := routes app @
                      [\<lparr>mount_path = ''/'', directory = ''web/dist'', html = True,
                        mount_name = ''dist''\<rparr>],
                   exception_handlers :=
                      (exception_handlers app)(Exception_class HTTPException \<mapsto>
                         load_static_handler)\<rparr>,
               st\<lparr>TORTOISE_ORM :=
                    Some (snd (build_orm_config st env (env ''DATABASE_TYPE'')))\<rparr>)"
    by (simp add: result_load_dotenv_file load_static_def)
  show "env ''LOAD_STATIC_FROM_LOCAL'' = Some ''true'' \<and> \<not> isdir fs ''web/dist'' \<longrightarrow>
        load_dotenv_file fs env st app =
          ([(INFO, Msg_static_served_by_fastapi)],
           Inl (RuntimeError (''Directory '' @ [CHR 0x27] @ ''web/dist'' @ [CHR 0x27]
                              @ '' does not exist'')))"
    by (simp add: load_dotenv_file_def load_static_def)
qed

theorem load_dotenv_file_static_iff_witness:
  "snd (load_dotenv_file {''web/dist''} [''LOAD_STATIC_FROM_LOCAL'' \<mapsto> ''true'']
          \<lparr>BASE_DIR = ''/srv/app'', TORTOISE_ORM = None\<rparr>
          \<lparr>routes = [], exception_handlers = Map.empty\<rparr>)
     = Inr (\<lparr>routes = [\<lparr>mount_path = ''/'', directory = ''web/dist'', html = True,
                          mount_name = ''dist''\<rparr>],
             exception_handlers = [Exception_class HTTPException \<mapsto> load_static_handler]\<rparr>,
            \<lparr>BASE_DIR = ''/srv/app'',
             TORTOISE_ORM = Some (snd (build_orm_config
                \<lparr>BASE_DIR = ''/srv/app'', TORTOISE_ORM = None\<rparr>
                [''LOAD_STATIC_FROM_LOCAL'' \<mapsto> ''true''] None))\<rparr>)
   \<and> load_dotenv_file {} [''LOAD_STATIC_FROM_LOCAL'' \<mapsto> ''true'']
          \<lparr>BASE_DIR = ''/srv/app'', TORTOISE_ORM = None\<rparr>
          \<lparr>routes = [], exception_handlers = Map.empty\<rparr>
     = ([(INFO, Msg_static_served_by_fastapi)],
        Inl (RuntimeError (''Directory '' @ [CHR 0x27] @ ''web/dist'' @ [CHR 0x27]
                           @ '' does not exist'')))
   \<and> snd (load_dotenv_file {''web/dist''} [''LOAD_STATIC_FROM_LOCAL'' \<mapsto> ''True'']
          \<lparr>BASE_DIR = ''/srv/app'', TORTOISE_ORM = None\<rparr>
          \<lparr>routes = [], exception_handlers = Map.empty\<rparr>)
     = Inr (\<lparr>routes = [], exception_handlers = Map.empty\<rparr>,
            \<lparr>BASE_DIR = ''/srv/app'',
             TORTOISE_ORM = Some (snd (build_orm_config
                \<lparr>BASE_DIR = ''/srv/app'', TORTOISE_ORM = None\<rparr>
                [''LOAD_STATIC_FROM_LOCAL'' \<mapsto> ''True''] None))\<rparr>)
   \<and> snd (load_dotenv_file {''web/dist''} Map.empty
          \<lparr>BASE_DIR = ''/srv/app'', TORTOISE_ORM = None\<rparr>
          \<lparr>routes = [], exception_handlers = Map.empty\<rparr>)
     = Inr (\<lparr>routes = [], exception_handlers = Map.empty\<rparr>,
            \<lparr>BASE_DIR = ''/srv/app'',
             TORTOISE_ORM = Some (snd (build_orm_config
                \<lparr>BASE_DIR = ''/srv/app'', TORTOISE_ORM = None\<rparr> Map.empty None))\<rparr>)"
proof -
  let ?st = "\<lparr>BASE_DIR = ''/srv/app'', TORTOISE_ORM = None\<rparr>"
  let ?app = "\<lparr>routes = [], exception_handlers = Map.empty\<rparr>"
  let ?on = "[''LOAD_STATIC_FROM_LOCAL'' \<mapsto> ''true'']"
  let ?cap = "[''LOAD_STATIC_FROM_LOCAL'' \<mapsto> ''True'']"
  have there: "isdir {''web/dist''} ''web/dist''" and gone: "\<not> isdir {} ''web/dist''"
    by (simp_all add: isdir_def)
  have on: "?on ''LOAD_STATIC_FROM_LOCAL'' = Some ''true''"
    by simp
  have cap: "?cap ''LOAD_STATIC_FROM_LOCAL'' \<noteq> Some ''true''"
    by simp
  have unset: "(Map.empty :: environ) ''LOAD_STATIC_FROM_LOCAL'' \<noteq> Some ''true''"
    by simp
  have a: "snd (load_dotenv_file {''web/dist''} ?on ?st ?app) =
             Inr (?app\<lparr>routes := routes ?app @
                          [\<lparr>mount_path = ''/'', directory = ''web/dist'', html = True,
                            mount_name = ''dist''\<rparr>],
                       exception_handlers :=
                          (exception_handlers ?app)(Exception_class HTTPException \<mapsto>
                             load_static_handler)\<rparr>,
                  ?st\<lparr>TORTOISE_ORM :=
                        Some (snd (build_orm_config ?st ?on (?on ''DATABASE_TYPE'')))\<rparr>)"
    using load_dotenv_file_static_iff [of "{''web/dist''}" ?on ?st ?app] on there by blast
  have b: "load_dotenv_file {} ?on ?st ?app =
             ([(INFO, Msg_static_served_by_fastapi)],
              Inl (RuntimeError (''Directory '' @ [CHR 0x27] @ ''web/dist'' @ [CHR 0x27]
                                 @ '' does not exist'')))"
    using load_dotenv_file_static_iff [of "{}" ?on ?st ?app] on gone by blast
  have c: "snd (load_dotenv_file {''web/dist''} ?cap ?st ?app) =
             Inr (?app, ?st\<lparr>TORTOISE_ORM :=
                    Some (snd (build_orm_config ?st ?cap (?cap ''DATABASE_TYPE'')))\<rparr>)"
    using load_dotenv_file_static_iff [of "{''web/dist''}" ?cap ?st ?app] cap by blast
  have d: "snd (load_dotenv_file {''web/dist''} Map.empty ?st ?app) =
             Inr (?app, ?st\<lparr>TORTOISE_ORM :=
                    Some (snd (build_orm_config ?st Map.empty (Map.empty ''DATABASE_TYPE'')))\<rparr>)"
    using load_dotenv_file_static_iff [of "{''web/dist''}" Map.empty ?st ?app] unset by blast
  show ?thesis
    unfolding a b c d by simp
qed

text \<open>
  Claim C4, as the module has it. With static serving disabled \<open>load_dotenv_file\<close>
  returns normally and leaves the application as it was: no static mount is added, no
  exception handler is registered, and a warning is logged. An HTTP error on an
  unmatched path is therefore answered by the handlers the application already holds,
  never by a static-file response. Where the application holds FastAPI's default
  handler for HTTP exceptions and no handler for the status code 404, the 404 that the
  router raises for an unmatched path (detail \<open>Not Found\<close>) is answered with status 404
  and body \<open>{"detail": "Not Found"}\<close> on every path: on a path that starts with \<open>/api\<close>
  this is what the handler of \<open>load_static\<close> would answer, on any other path it is not
  (that handler would redirect to \<open>/\<close>).
\<close>

theorem load_dotenv_file_static_disabled:
  assumes "env ''LOAD_STATIC_FROM_LOCAL'' \<noteq> Some ''true''"
  shows "\<exists>app' st'.
           snd (load_dotenv_file fs env st app) = Inr (app', st')
         \<and> routes app' = routes app
         \<and> exception_handlers app' = exception_handlers app
         \<and> (WARNING, Msg_static_not_served) \<in> set (fst (load_dotenv_file fs env st app))
         \<and> (exception_handlers app (Status_code 404) = None
              \<and> exception_handlers app (Exception_class HTTPException)
                  = Some http_exception_handler
              \<and> status_code exc = 404 \<and> detail exc = PStr ''Not Found'' \<longrightarrow>
                handle_http_exception app' (HTTPException # bases) req exc
                  = Some (JSONResponse 404 (PDict [(''detail'', PStr ''Not Found'')]))
              \<and> (startswith (url_path req) ''/api'' \<longrightarrow>
                   handle_http_exception app' (HTTPException # bases) req exc
                     = Some (load_static_handler req exc))
              \<and> (\<not> startswith (url_path req) ''/api'' \<longrightarrow>
                   handle_http_exception app' (HTTPException # bases) req exc
                     \<noteq> Some (load_static_handler req exc)))"
proof -
  let ?st' = "st\<lparr>TORTOISE_ORM := Some (snd (build_orm_config st env (env ''DATABASE_TYPE'')))\<rparr>"
  have r: "snd (load_dotenv_file fs env st app) = Inr (app, ?st')"
    using assms by (simp add: result_load_dotenv_file)
  have w: "(WARNING, Msg_static_not_served) \<in> set (fst (load_dotenv_file fs env st app))"
    using assms by (simp add: logs_load_dotenv_file)
  have d: "handle_http_exception app (HTTPException # bases) req exc
             = Some (JSONResponse 404 (PDict [(''detail'', PStr ''Not Found'')]))
           \<and> (startswith (url_path req) ''/api'' \<longrightarrow>
                handle_http_exception app (HTTPException # bases) req exc
                  = Some (load_static_handler req exc))
           \<and> (\<not> startswith (url_path req) ''/api'' \<longrightarrow>
                handle_http_exception app (HTTPException # bases) req exc
                  \<noteq> Some (load_static_handler req exc))"
    if h: "exception_handlers app (Status_code 404) = None"
          "exception_handlers app (Exception_class HTTPException) = Some http_exception_handler"
          "status_code exc = 404" "detail exc = PStr ''Not Found''"
  proof -
    have "handle_http_exception app (HTTPException # bases) req exc
            = Some (http_exception_handler req exc)"
      using h by (intro handle_http_exception_default) simp_all
    with h show ?thesis
      by (simp add: http_exception_handler_def is_body_allowed_for_status_code_def
            load_static_handler_def HTTP_404_NOT_FOUND_def)
  qed
  show ?thesis
    using r w d by (intro exI [of _ app] exI [of _ ?st']) blast
qed

theorem load_dotenv_file_static_disabled_witness:
  "\<exists>app' st'.
      snd (load_dotenv_file {''web/dist''} [''LOAD_STATIC_FROM_LOCAL'' \<mapsto> ''True'']
             \<lparr>BASE_DIR = ''/srv/app'', TORTOISE_ORM = None\<rparr>
             \<lparr>routes = [],
              exception_handlers = [Exception_class HTTPException \<mapsto> http_exception_handler]\<rparr>)
        = Inr (app', st')
    \<and> routes app' = []
    \<and> handle_http_exception app'
         [HTTPException, ''Exception'', ''BaseException'', ''object'']
         \<lparr>url_path = ''/api/unknown''\<rparr> \<lparr>status_code = 404, detail = PStr ''Not Found''\<rparr>
        = Some (JSONResponse 404 (PDict [(''detail'', PStr ''Not Found'')]))
    \<and> handle_http_exception app'
         [HTTPException, ''Exception'', ''BaseException'', ''object'']
         \<lparr>url_path = ''/api/unknown''\<rparr> \<lparr>status_code = 404, detail = PStr ''Not Found''\<rparr>
        = Some (load_static_handler
                  \<lparr>url_path = ''/api/unknown''\<rparr>
                  \<lparr>status_code = 404, detail = PStr ''Not Found''\<rparr>)"
proof -
  let ?env = "[''LOAD_STATIC_FROM_LOCAL'' \<mapsto> ''True'']"
  let ?st = "\<lparr>BASE_DIR = ''/srv/app'', TORTOISE_ORM = None\<rparr>"
  let ?app = "\<lparr>routes = [],
               exception_handlers = [Exception_class HTTPException \<mapsto> http_exception_handler]\<rparr>"
  let ?req = "\<lparr>url_path = ''/api/unknown''\<rparr>"
  let ?exc = "\<lparr>status_code = 404, detail = PStr ''Not Found''\<rparr>"
  let ?bases = "[''Exception'', ''BaseException'', ''object'']"
  have off: "?env ''LOAD_STATIC_FROM_LOCAL'' \<noteq> Some ''true''"
    by simp
  have h: "exception_handlers ?app (Status_code 404) = None
           \<and> exception_handlers ?app (Exception_class HTTPException) = Some http_exception_handler
           \<and> status_code ?exc = 404 \<and> detail ?exc = PStr ''Not Found''"
    by simp
  have p: "startswith (url_path ?req) ''/api''"
    by (simp add: startswith_api)
  have e: "routes ?app = []"
    by simp
  show ?thesis
    using load_dotenv_file_static_disabled
            [of ?env "{''web/dist''}" ?st ?app ?exc ?bases ?req, OF off]
          h p e
    by metis
qed

text \<open>
  The claim as the specification words it fails. With the variable unset, on an
  application that holds FastAPI's default handler for HTTP exceptions and no static
  mount, \<open>load_dotenv_file\<close> returns the application as it was; the 404 for the
  unmatched path \<open>/dashboard/settings\<close> is answered with status 404 and body
  \<open>{"detail": "Not Found"}\<close>, which is not the answer of the handler of \<open>load_static\<close>
  (a redirect to \<open>/\<close>).
\<close>

theorem load_dotenv_file_static_disabled_counterexample:
  "snd (load_dotenv_file {''web/dist''} Map.empty
          \<lparr>BASE_DIR = ''/srv/app'', TORTOISE_ORM = None\<rparr>
          \<lparr>routes = [],
           exception_handlers = [Exception_class HTTPException \<mapsto> http_exception_handler]\<rparr>)
     = Inr (\<lparr>routes = [],
             exception_handlers = [Exception_class HTTPException \<mapsto> http_exception_handler]\<rparr>,
            \<lparr>BASE_DIR = ''/srv/app'',
             TORTOISE_ORM = Some (snd (build_orm_config
                \<lparr>BASE_DIR = ''/srv/app'', TORTOISE_ORM = None\<rparr> Map.empty None))\<rparr>)
   \<and> handle_http_exception
       \<lparr>routes = [],
        exception_handlers = [Exception_class HTTPException \<mapsto> http_exception_handler]\<rparr>
       [HTTPException, ''Exception'', ''BaseException'', ''object'']
       \<lparr>url_path = ''/dashboard/settings''\<rparr> \<lparr>status_code = 404, detail = PStr ''Not Found''\<rparr>
     = Some (JSONResponse 404 (PDict [(''detail'', PStr ''Not Found'')]))
   \<and> handle_http_exception
       \<lparr>routes = [],
        exception_handlers = [Exception_class HTTPException \<mapsto> http_exception_handler]\<rparr>
       [HTTPException, ''Exception'', ''BaseException'', ''object'']
       \<lparr>url_path = ''/dashboard/settings''\<rparr> \<lparr>status_code = 404, detail = PStr ''Not Found''\<rparr>
     \<noteq> Some (load_static_handler
               \<lparr>url_path = ''/dashboard/settings''\<rparr>
               \<lparr>status_code = 404, detail = PStr ''Not Found''\<rparr>)
   \<and> load_static_handler
       \<lparr>url_path = ''/dashboard/settings''\<rparr> \<lparr>status_code = 404, detail = PStr ''Not Found''\<rparr>
     = RedirectResponse ''/''"
  by (simp add: result_load_dotenv_file handle_http_exception_def HTTPException_def
        http_exception_handler_def is_body_allowed_for_status_code_def
        load_static_handler_def HTTP_404_NOT_FOUND_def startswith_api)

section \<open>Properties of \<open>startup_event\<close>\<close>

text \<open>
  Claim C3. The startup callback calls the superuser initialisation and then the menu
  initialisation, in this order and nothing else. When the superuser initialisation
  raises, the menu initialisation is not called (the call list is the superuser
  initialisation alone, whatever the menu initialisation would do) and the callback
  raises the same error. When it returns, the menu initialisation runs on the state it
  left, and the callback ends as the menu initialisation does.
\<close>

theorem startup_event_order:
  "(init_superuser s = Inl e \<longrightarrow>
      startup_event init_superuser init_menus s = ([Init_superuser], Inl e))
   \<and> (init_superuser s = Inr s1 \<longrightarrow>
      startup_event init_superuser init_menus s = ([Init_superuser, Init_menus], init_menus s1))"
  by (simp add: startup_event_def split: sum.splits)

theorem startup_event_order_witness:
  "startup_event (\<lambda>s::nat. Inl ''no database'') (\<lambda>s. Inr (s + 1)) 0
     = ([Init_superuser], Inl ''no database'')
   \<and> startup_event (\<lambda>s::nat. Inr (s + 1) :: string + nat) (\<lambda>s. Inr (s * 10)) 0
     = ([Init_superuser, Init_menus], Inr 10)"
proof -
  have a: "(\<lambda>s::nat. Inl ''no database'' :: string + nat) 0 = Inl ''no database''"
    by simp
  have b: "(\<lambda>s::nat. Inr (s + 1) :: string + nat) 0 = Inr 1"
    by simp
  have c: "startup_event (\<lambda>s::nat. Inl ''no database'') (\<lambda>s. Inr (s + 1)) 0
             = ([Init_superuser], Inl ''no database'')"
    using startup_event_order
            [of "\<lambda>s::nat. Inl ''no database''" 0 "''no database''" "\<lambda>s. Inr (s + 1)" 1] a
    by blast
  have d: "startup_event (\<lambda>s::nat. Inr (s + 1) :: string + nat) (\<lambda>s. Inr (s * 10)) 0
             = ([Init_superuser, Init_menus], (\<lambda>s. Inr (s * 10)) 1)"
    using startup_event_order
            [of "\<lambda>s::nat. Inr (s + 1)" 0 "''x''" "\<lambda>s. Inr (s * 10)" 1] b
    by blast
  show ?thesis
    unfolding c d by simp
qed

end
